theory Spec2Isabelle
  imports Main
begin

section \<open>Python strings\<close>

text \<open>
  A Python \<^verbatim>\<open>str\<close> is modelled as a \<^typ>\<open>string\<close> holding its UTF-8 bytes. The source
  reads its input files as UTF-8, and a substring occurs in a text at a code-point position
  exactly when its encoding occurs in the encoding of the text, because no UTF-8 encoding
  of a code point starts inside the encoding of another; searching and replacing on the
  bytes is therefore searching and replacing on the code points.
\<close>

fun startswith :: "'a list \<Rightarrow> 'a list \<Rightarrow> bool" where
  "startswith [] s = True"
| "startswith (p # ps) [] = False"
| "startswith (p # ps) (c # cs) = (p = c \<and> startswith ps cs)"

text \<open>\<^verbatim>\<open>sub in s\<close>: some suffix of \<open>s\<close> starts with \<open>sub\<close>.\<close>

fun py_in :: "'a list \<Rightarrow> 'a list \<Rightarrow> bool" where
  "py_in sub [] = (sub = [])"
| "py_in sub (c # cs) = (startswith sub (c # cs) \<or> py_in sub cs)"

text \<open>
  \<^verbatim>\<open>s.replace(old, new)\<close> for a non-empty \<open>old\<close>: the text is scanned from the left; where
  \<open>old\<close> starts, \<open>new\<close> is written and the scan goes on after that occurrence, so the
  occurrences replaced are the leftmost non-overlapping ones.
\<close>

fun replace_scan :: "'a list \<Rightarrow> 'a list \<Rightarrow> 'a list \<Rightarrow> 'a list" where
  "replace_scan old new [] = []"
| "replace_scan old new (c # cs) =
     (if startswith old (c # cs) then new @ replace_scan old new (drop (length old - 1) cs)
      else c # replace_scan old new cs)"

text \<open>
  \<^verbatim>\<open>s.replace(old, new)\<close>. With an empty \<open>old\<close> Python writes \<open>new\<close> before every
  character and at the end.
\<close>

definition py_replace :: "'a list \<Rightarrow> 'a list \<Rightarrow> 'a list \<Rightarrow> 'a list" where
  "py_replace old new s =
     (if old = [] then new @ concat (map (\<lambda>c. c # new) s) else replace_scan old new s)"

text \<open>\<^verbatim>\<open>s.count(sub)\<close> for a non-empty \<open>sub\<close>: the occurrences that \<open>replace\<close> replaces.\<close>

fun count_scan :: "'a list \<Rightarrow> 'a list \<Rightarrow> nat" where
  "count_scan sub [] = 0"
| "count_scan sub (c # cs) =
     (if startswith sub (c # cs) then Suc (count_scan sub (drop (length sub - 1) cs))
      else count_scan sub cs)"

definition py_count :: "'a list \<Rightarrow> 'a list \<Rightarrow> nat" where
  "py_count sub s = (if sub = [] then Suc (length s) else count_scan sub s)"

text \<open>
  \<^verbatim>\<open>s.split(sep)\<close> for a non-empty \<open>sep\<close>: the pieces of the text between the occurrences
  that \<open>replace\<close> replaces. (Python raises ValueError for an empty separator; the
  function is used below for non-empty separators only.)
\<close>

fun split_scan :: "'a list \<Rightarrow> 'a list \<Rightarrow> 'a list list" where
  "split_scan sep [] = [[]]"
| "split_scan sep (c # cs) =
     (if startswith sep (c # cs) then [] # split_scan sep (drop (length sep - 1) cs)
      else (case split_scan sep cs of
              [] \<Rightarrow> [[c]]
            | seg # segs \<Rightarrow> (c # seg) # segs))"

text \<open>\<^verbatim>\<open>sep.join(pieces)\<close>.\<close>

fun py_join :: "'a list \<Rightarrow> 'a list list \<Rightarrow> 'a list" where
  "py_join sep [] = []"
| "py_join sep [x] = x"
| "py_join sep (x # y # ys) = x @ sep @ py_join sep (y # ys)"

section \<open>The converter object\<close>

text \<open>
  The state of \<^verbatim>\<open>MarkdownToPdfConverter\<close> that the renderer and the batch pipeline read
  and write. An error entry \<open>(name, e)\<close> stands for the message string
  \<^verbatim>\<open>f"{name}.md: {text of e}"\<close> that the source appends to \<^verbatim>\<open>conversion_errors\<close>.
\<close>

datatype conv_error =
    Raised string                \<comment> \<open>\<^verbatim>\<open>str(e)\<close> of a caught exception\<close>
  | Html_load_failed             \<comment> \<open>the message of line 1107: the HTML load failed\<close>
  | Pdf_generation_error string  \<comment> \<open>line 1154: PDF generation error, with \<^verbatim>\<open>str(pdf_error)\<close>\<close>
  | Pdf_check_error string       \<comment> \<open>line 1179: error in the first check\<close>
  | Pdf_empty                    \<comment> \<open>line 1196: the PDF file is empty (0 bytes)\<close>
  | Pdf_not_generated            \<comment> \<open>line 1202: the PDF file was not generated\<close>
  | Pdf_final_check_error string \<comment> \<open>line 1207: error in the final check\<close>
  | Conversion_failed            \<comment> \<open>line 1215: the conversion failed\<close>

text \<open>What the completion dialog of \<^verbatim>\<open>on_all_conversions_finished\<close> reports.\<close>

datatype summary =
    All_converted int
  | With_errors int nat "(string \<times> conv_error) list" nat

text \<open>
  Work handed to the Qt event loop: a page load started by \<^verbatim>\<open>setHtml\<close>, and the
  single-shot timers with their delay in milliseconds.
\<close>

datatype callback =
    Generate_pdf
  | Check_pdf_generation string
  | Check_pdf_generation_final string

datatype pending = Load | Timer nat callback

record converter =
  current_files :: "string list"
  page_break_marker :: string
  pagebreak_input :: string
  include_toc :: bool
  confirm_overwrite :: bool
  output_folder :: string
  current_conversion_index :: nat
  total_files :: nat
  conversion_errors :: "(string \<times> conv_error) list"
  progress_bar :: int
  current_output_path :: string
  load_connections :: nat
  scheduled :: "pending list"
  raised :: "string option"
  aborted :: bool
  html_loads :: "(string \<times> string) list"
  handler_runs :: nat
  printed :: "string list"
  reports :: "summary list"

text \<open>
  \<^item> \<open>pagebreak_input\<close>, \<open>include_toc\<close>, \<open>confirm_overwrite\<close>, \<open>output_folder\<close> and
    \<open>progress_bar\<close> are the text, the check state and the value of the widgets of these
    names.
  \<^item> \<open>load_connections\<close> is the number of connections from the view's \<^verbatim>\<open>loadFinished\<close>
    signal to \<^verbatim>\<open>on_html_loaded\<close>: \<^verbatim>\<open>connect\<close> adds one, \<^verbatim>\<open>disconnect()\<close> removes all.
  \<^item> \<open>scheduled\<close> is the work the event loop still owes the pipeline.
  \<^item> \<open>raised\<close> is the exception that is on its way out of the method that runs, by its
    message; \<open>None\<close> when the method returns. What the method has written before it
    raised stays written.
  \<^item> \<open>aborted\<close>: an exception left a slot uncaught (PyQt5 ends the process).
  \<^item> \<open>html_loads\<close>, \<open>printed\<close> and \<open>reports\<close> log the calls of \<^verbatim>\<open>setHtml\<close> (the HTML
    and the base URL), of \<^verbatim>\<open>printToPdf\<close> (the output path) and the completion dialogs;
    \<open>handler_runs\<close> counts the runs of \<^verbatim>\<open>on_html_loaded\<close>.
\<close>

text \<open>
  The libraries and the surroundings of a job. The Markdown library, \<^verbatim>\<open>pathlib\<close> and the
  file system are not part of the repository: they are parameters. The three functions
  indexed by a position of the document list answer what \<^verbatim>\<open>convert_next_file\<close> asks
  when it starts the file at that position (it starts every position at most once).
\<close>

datatype reply = Yes | No | Cancel

record env =
  markdown_convert :: "string list \<Rightarrow> string \<Rightarrow> string"
  path_stem :: "string \<Rightarrow> string"
  path_parent :: "string \<Rightarrow> string"
  path_join :: "string \<Rightarrow> string \<Rightarrow> string"
  output_exists :: "nat \<Rightarrow> string + bool"
  overwrite_reply :: "nat \<Rightarrow> reply"
  read_file :: "nat \<Rightarrow> string + string"

text \<open>
  \<^item> \<open>markdown_convert exts text\<close> is \<^verbatim>\<open>markdown.Markdown(extensions=exts).convert(text)\<close>
    on the fresh instance that every call of the renderer creates.
  \<^item> \<open>path_stem p\<close> is \<^verbatim>\<open>Path(p).stem\<close>, \<open>path_parent p\<close> is \<^verbatim>\<open>str(Path(p).parent)\<close>,
    \<open>path_join d n\<close> is \<^verbatim>\<open>str(Path(d) / n)\<close>.
  \<^item> \<open>output_exists i\<close> is what \<^verbatim>\<open>output_path.exists()\<close> answers (\<open>Inr\<close>), or the message
    of the OSError that it raises (\<open>Inl\<close>), as it does for a name that is too long;
    \<open>overwrite_reply i\<close> is the button of the overwrite question; \<open>read_file i\<close> is the
    text of the file (\<open>Inr\<close>) or the message of the exception that reading it raises
    (\<open>Inl\<close>).
\<close>

section \<open>The renderer\<close>

definition page_break_div :: string where
  \<open>page_break_div = ''<div class="page-break" style="page-break-after: always;"></div>''\<close>

definition default_marker :: string where
  "default_marker = ''<!-- pagebreak -->''"

text \<open>The extension list of lines 828 to 841, with the entries that are \<^verbatim>\<open>None\<close> dropped.\<close>

definition markdown_extensions :: "bool \<Rightarrow> string list" where
  "markdown_extensions toc =
     concat (map (\<lambda>ext. case ext of None \<Rightarrow> [] | Some e \<Rightarrow> [e])
       [Some ''fenced_code'',
        Some ''tables'',
        if toc then Some ''toc'' else None,
        Some ''nl2br'',
        Some ''sane_lists'',
        Some ''codehilite'',
        Some ''attr_list'',
        Some ''def_list'',
        Some ''footnotes'',
        Some ''md_in_html'',
        Some ''meta''])"

text \<open>
  The f-string of lines 848 to 1024, before and after \<^verbatim>\<open>{body_html}\<close>, with its doubled
  braces written once. The two comments in Japanese are given by their UTF-8 bytes.
\<close>

definition html_head :: string where
  \<open>html_head =
  ''
<!DOCTYPE html>
<html lang="ja">
<head>
    <meta charset="utf-8">
    <meta name="viewport" content="width=device-width, initial-scale=1.0">
    <meta name="color-scheme" content="light">
    <meta name="print-color-adjust" content="exact">
    <style>
        body {
            font-family: -apple-system, BlinkMacSystemFont, 'Segoe UI', 'Helvetica Neue', 'Hiragino Sans', Arial, 'Meiryo', sans-serif;
            line-height: 1.6;
            color: #333;
            max-width: 900px;
            margin: 20px auto;
            padding: 20px;
            background: white;
            box-shadow: 0 0 10px rgba(0,0,0,0.1);
            border-radius: 4px;
        }
        h1, h2, h3, h4, h5, h6 {
            margin-top: 24px;
            margin-bottom: 16px;
            font-weight: 600;
            line-height: 1.25;
        }
        h1 { font-size: 2em; border-bottom: 1px solid #eaecef; padding-bottom: .3em; }
        h2 { font-size: 1.5em; border-bottom: 1px solid #eaecef; padding-bottom: .3em; }
        h3 { font-size: 1.25em; }
        code {
            background-color: rgba(27,31,35,.05);
            border-radius: 3px;
            font-family: 'SFMono-Regular', Consolas, 'Liberation Mono', Menlo, monospace;
            font-size: 85%;
            margin: 0;
            padding: .2em .4em;
        }
        pre {
            background-color: #f6f8fa;
            border-radius: 3px;
            font-size: 85%;
            line-height: 1.45;
            overflow: auto;
            padding: 16px;
        }
        pre code {
            background-color: transparent;
            border: 0;
            display: inline;
            line-height: inherit;
            margin: 0;
            overflow: visible;
            padding: 0;
            word-wrap: normal;
        }
        table {
            border-collapse: collapse;
            margin: 16px 0;
            width: 100%;
            display: table;
        }
        table th, table td {
            border: 1px solid #dfe2e5;
            padding: 6px 13px;
        }
        table th {
            background-color: #f6f8fa;
            font-weight: 600;
        }
        blockquote {
            border-left: 4px solid #dfe2e5;
            color: #6a737d;
            padding-left: 16px;
            margin: 16px 0;
        }
        img {
            max-width: 100%;
            height: auto;
            -webkit-print-color-adjust: exact !important;
            print-color-adjust: exact !important;
        }
        .mermaid {
            text-align: center;
            margin: 16px 0;
            padding: 16px;
            background-color: #f8f9fa;
            border: 1px solid #e9ecef;
            border-radius: 4px;
        }
        /* '' @
  [CHR 0xE5, CHR 0x8D, CHR 0xB0, CHR 0xE5, CHR 0x88, CHR 0xB7, CHR 0xE7, CHR 0x94, CHR 0xA8, CHR 0xE3, CHR 0x82, CHR 0xB9, CHR 0xE3, CHR 0x82, CHR 0xBF, CHR 0xE3, CHR 0x82, CHR 0xA4, CHR 0xE3, CHR 0x83, CHR 0xAB] @
  '' */
        @media print {
            body {
                margin: 0;
                padding: 10mm;
                font-size: 10pt;
                color: #333 !important;
                -webkit-print-color-adjust: exact !important;
                print-color-adjust: exact !important;
            }
            .page-break {
                page-break-after: always;
                break-after: page;
            }
            h1, h2, h3 {
                page-break-after: avoid;
                color: #333 !important;
            }
            pre, table, blockquote {
                page-break-inside: avoid;
            }
            code {
                background-color: rgba(27,31,35,.05) !important;
                -webkit-print-color-adjust: exact !important;
                print-color-adjust: exact !important;
            }
            pre {
                background-color: #f6f8fa !important;
                -webkit-print-color-adjust: exact !important;
                print-color-adjust: exact !important;
            }
            table th {
                background-color: #f6f8fa !important;
                -webkit-print-color-adjust: exact !important;
                print-color-adjust: exact !important;
            }
            blockquote {
                border-left: 4px solid #dfe2e5 !important;
                color: #6a737d !important;
                -webkit-print-color-adjust: exact !important;
                print-color-adjust: exact !important;
            }
            .mermaid {
                background-color: #f8f9fa !important;
                border: 1px solid #e9ecef !important;
                -webkit-print-color-adjust: exact !important;
                print-color-adjust: exact !important;
            }
            img {
                -webkit-print-color-adjust: exact !important;
                print-color-adjust: exact !important;
                color-adjust: exact !important;
            }
            * {
                -webkit-print-color-adjust: exact !important;
                print-color-adjust: exact !important;
            }
        }
    </style>
</head>
<body>
    ''\<close>

definition html_tail :: string where
  \<open>html_tail =
  ''
    <script>
        // Mermaid'' @
  [CHR 0xE3, CHR 0x82, CHR 0xB3, CHR 0xE3, CHR 0x83, CHR 0xBC, CHR 0xE3, CHR 0x83, CHR 0x89, CHR 0xE3, CHR 0x83, CHR 0x96, CHR 0xE3, CHR 0x83, CHR 0xAD, CHR 0xE3, CHR 0x83, CHR 0x83, CHR 0xE3, CHR 0x82, CHR 0xAF, CHR 0xE3, CHR 0x82, CHR 0x92, CHR 0xE5, CHR 0x87, CHR 0xA6, CHR 0xE7, CHR 0x90, CHR 0x86, CHR 0xEF, CHR 0xBC, CHR 0x88, CHR 0xE3, CHR 0x82, CHR 0xA8, CHR 0xE3, CHR 0x83, CHR 0xA9, CHR 0xE3, CHR 0x83, CHR 0xBC, CHR 0xE3, CHR 0x83, CHR 0x8F, CHR 0xE3, CHR 0x83, CHR 0xB3, CHR 0xE3, CHR 0x83, CHR 0x89, CHR 0xE3, CHR 0x83, CHR 0xAA, CHR 0xE3, CHR 0x83, CHR 0xB3, CHR 0xE3, CHR 0x82, CHR 0xB0, CHR 0xE4, CHR 0xBB, CHR 0x98, CHR 0xE3, CHR 0x81, CHR 0x8D, CHR 0xEF, CHR 0xBC, CHR 0x89] @
  ''
        try {
            if (typeof document !== 'undefined' && document.querySelectorAll) {
                document.querySelectorAll('pre code.language-mermaid').forEach(function(element) {
                    try {
                        const mermaidCode = element.textContent;
                        const mermaidDiv = document.createElement('div');
                        mermaidDiv.className = 'mermaid';
                        mermaidDiv.innerHTML = '<pre style="text-align: left; background: #f8f9fa; padding: 10px; border-radius: 4px;"><code>' + 
                                              mermaidCode.replace(/</g, '&lt;').replace(/>/g, '&gt;') + '</code></pre>';
                        if (element.parentNode && element.parentNode.parentNode) {
                            element.parentNode.parentNode.replaceChild(mermaidDiv, element.parentNode);
                        }
                    } catch (e) {
                        console.log('Mermaid processing error:', e);
                    }
                });
            }
        } catch (e) {
            console.log('Document processing error:', e);
        }
    </script>
</body>
</html>
''\<close>

definition html_template :: "string \<Rightarrow> string" where
  "html_template body_html = html_head @ body_html @ html_tail"

text \<open>\<^verbatim>\<open>markdown_to_html\<close>, lines 818 to 1025. It writes no field of the converter.\<close>

definition markdown_to_html :: "env \<Rightarrow> converter \<Rightarrow> string \<Rightarrow> string" where
  "markdown_to_html e self markdown_content =
     (let marker = (if pagebreak_input self \<noteq> [] then pagebreak_input self
                    else page_break_marker self);
          content = py_replace marker page_break_div markdown_content;
          extensions = markdown_extensions (include_toc self);
          body_html = markdown_convert e extensions content
      in html_template body_html)"

text \<open>The converter after \<^verbatim>\<open>__init__\<close>, lines 112 to 119, with no file added yet.\<close>

definition init_converter :: converter where
  "init_converter =
     \<lparr>current_files = [], page_break_marker = default_marker,
      pagebreak_input = default_marker, include_toc = True, confirm_overwrite = True,
      output_folder = [], current_conversion_index = 0, total_files = 0,
      conversion_errors = [], progress_bar = 0, current_output_path = [],
      load_connections = 0, scheduled = [], raised = None, aborted = False,
      html_loads = [],
      handler_runs = 0, printed = [], reports = []\<rparr>"

section \<open>The batch pipeline\<close>

text \<open>
  \<^verbatim>\<open>QProgressBar.setValue\<close> with the range 0 to 100 that the bar is created with: a value
  outside the range leaves the bar as it is.
\<close>

definition set_progress :: "int \<Rightarrow> converter \<Rightarrow> converter" where
  "set_progress v self = (if 0 \<le> v \<and> v \<le> 100 then self\<lparr>progress_bar := v\<rparr> else self)"

text \<open>
  \<^verbatim>\<open>int((i * 100) / total_files)\<close>: true division, then truncation. For the list lengths a
  machine holds, the quotient of the two non-negative integers rounds to no other integer,
  so the value is the integer quotient.
\<close>

definition file_progress :: "nat \<Rightarrow> nat \<Rightarrow> int" where
  "file_progress i n = int (i * 100 div n)"

definition step_progress :: "nat \<Rightarrow> nat \<Rightarrow> int" where
  "step_progress percent n = int (percent div n)"

text \<open>
  \<^verbatim>\<open>on_all_conversions_finished\<close>, lines 1225 to 1252. The status label, the button and
  the timer that hides the bar are left out; the dialog is the entry added to \<open>reports\<close>:
  the success count, and with errors their number, the first five and how many more.
\<close>

definition on_all_conversions_finished :: "converter \<Rightarrow> converter" where
  "on_all_conversions_finished self =
     (let self1 = set_progress 100 self;
          errors = conversion_errors self1;
          success_count = int (total_files self1) - int (length errors)
      in self1\<lparr>reports := reports self1 @
           [if length errors = 0 then All_converted success_count
            else With_errors success_count (length errors) (take 5 errors)
                   (length errors - 5)]\<rparr>)"

text \<open>
  \<^verbatim>\<open>convert_next_file\<close>, lines 1043 to 1101. Two statements of it stand outside every
  \<^verbatim>\<open>try\<close> and can raise: the lookup of the current file (line 1050, IndexError past
  the end of the list) and \<^verbatim>\<open>output_path.exists()\<close> (line 1063, OSError). The exception
  leaves the method, and so it leaves the calls of \<^verbatim>\<open>convert_next_file\<close> by itself (lines
  1076 and 1101), which stand outside the \<^verbatim>\<open>try\<close> too.
\<close>

function convert_next_file :: "env \<Rightarrow> converter \<Rightarrow> converter" where
  "convert_next_file e self =
     (let i = current_conversion_index self in
      if total_files self \<le> i then on_all_conversions_finished self
      else if length (current_files self) \<le> i
      then self\<lparr>raised := Some ''list index out of range''\<rparr>
      else
        let current_file = current_files self ! i;
            file_name = path_stem e current_file;
            self1 = set_progress (file_progress i (total_files self)) self;
            output_path = path_join e (output_folder self1) (file_name @ ''.pdf'')
        in case output_exists e i of
             Inl os_error \<Rightarrow> self1\<lparr>raised := Some os_error\<rparr>
           | Inr found \<Rightarrow>
               if found \<and> confirm_overwrite self1 \<and> overwrite_reply e i = Cancel
               then on_all_conversions_finished self1
               else if found \<and> confirm_overwrite self1 \<and> overwrite_reply e i = No
               then convert_next_file e (self1\<lparr>current_conversion_index := i + 1\<rparr>)
               else
                 (case read_file e i of
                    Inl msg \<Rightarrow>
                      convert_next_file e
                        (self1\<lparr>conversion_errors :=
                                 conversion_errors self1 @ [(file_name, Raised msg)],
                               current_conversion_index := i + 1\<rparr>)
                  | Inr content \<Rightarrow>
                      let html_content = markdown_to_html e self1 content;
                          self2 = set_progress (file_progress i (total_files self1) +
                                                step_progress 20 (total_files self1)) self1;
                          base_url = path_parent e current_file @ ''/''
                      in self2\<lparr>current_output_path := output_path,
                                load_connections := load_connections self2 + 1,
                                html_loads := html_loads self2 @ [(html_content, base_url)],
                                scheduled := scheduled self2 @ [Load]\<rparr>))"
  by pat_completeness auto
termination
  by (relation "measure (\<lambda>(e, self). total_files self - current_conversion_index self)")
     (auto simp: set_progress_def)

declare convert_next_file.simps [simp del]

text \<open>
  An exception that leaves a slot or the callback of a timer is caught by nobody: PyQt5
  ends the process. \<open>uncaught\<close> is applied wherever the event loop calls into the
  converter.
\<close>

definition uncaught :: "converter \<Rightarrow> converter" where
  "uncaught self = (if raised self = None then self else self\<lparr>aborted := True\<rparr>)"

text \<open>
  \<^verbatim>\<open>convert_to_pdf\<close>, lines 1027 to 1041, the slot of the convert button (line 201).
\<close>

definition convert_to_pdf :: "env \<Rightarrow> converter \<Rightarrow> converter" where
  "convert_to_pdf e self =
     (if current_files self = [] \<or> output_folder self = [] then self
      else uncaught
             (convert_next_file e
                (set_progress 0
                   (self\<lparr>current_conversion_index := 0,
                          total_files := length (current_files self),
                          conversion_errors := []\<rparr>))))"

text \<open>
  The statements that every per-file error branch of the source repeats: look the name of the
  current file up (IndexError past the end of the list), append the message, advance the
  index, call \<^verbatim>\<open>convert_next_file\<close>. An exception of the lookup or of the call leaves the
  branch.
\<close>

definition record_error_and_continue :: "env \<Rightarrow> conv_error \<Rightarrow> converter \<Rightarrow> converter" where
  "record_error_and_continue e err self =
     (let i = current_conversion_index self in
      if length (current_files self) \<le> i
      then self\<lparr>raised := Some ''list index out of range''\<rparr>
      else convert_next_file e
             (self\<lparr>conversion_errors :=
                      conversion_errors self @ [(path_stem e (current_files self ! i), err)],
                    current_conversion_index := i + 1\<rparr>))"

text \<open>
  \<^verbatim>\<open>except Exception as e\<close> around statements that have run to \<open>self\<close>: when they raised,
  the exception is caught and the error branch runs, with the message that the handler
  makes of \<^verbatim>\<open>str(e)\<close>. An exception of the error branch itself is caught no more.
\<close>

definition caught :: "env \<Rightarrow> (string \<Rightarrow> conv_error) \<Rightarrow> converter \<Rightarrow> converter" where
  "caught e handler self =
     (case raised self of
        None \<Rightarrow> self
      | Some msg \<Rightarrow> record_error_and_continue e (handler msg) (self\<lparr>raised := None\<rparr>))"

text \<open>
  \<^verbatim>\<open>on_html_loaded\<close>, lines 1103 to 1128. The branch for a failed load stands outside the
  \<^verbatim>\<open>try\<close> and returns before the \<^verbatim>\<open>disconnect()\<close> of line 1114. In the \<^verbatim>\<open>try\<close>,
  \<^verbatim>\<open>disconnect()\<close> raises TypeError when nothing is connected, and the division raises
  ZeroDivisionError for no files; both are caught by line 1124.
\<close>

definition on_html_loaded :: "env \<Rightarrow> bool \<Rightarrow> converter \<Rightarrow> converter" where
  "on_html_loaded e success self0 =
     (let self = self0\<lparr>handler_runs := handler_runs self0 + 1\<rparr> in
      if \<not> success then record_error_and_continue e Html_load_failed self
      else if load_connections self = 0
      then record_error_and_continue e (Raised ''disconnect() failed'') self
      else
        let self1 = self\<lparr>load_connections := 0\<rparr> in
        if total_files self1 = 0
        then record_error_and_continue e (Raised ''division by zero'') self1
        else
          let self2 = set_progress
                (file_progress (current_conversion_index self1) (total_files self1) +
                 step_progress 40 (total_files self1)) self1
          in self2\<lparr>scheduled := scheduled self2 @ [Timer 3000 Generate_pdf]\<rparr>)"

text \<open>
  \<^verbatim>\<open>generate_pdf\<close>, lines 1130 to 1162; \<open>print_error\<close> is the message of the exception
  that \<^verbatim>\<open>printToPdf\<close> raises, if it raises one. The error branch for the print call
  (lines 1151 to 1156) stands inside the outer \<^verbatim>\<open>try\<close>, whose handler is line 1158.
\<close>

definition generate_pdf :: "env \<Rightarrow> string option \<Rightarrow> converter \<Rightarrow> converter" where
  "generate_pdf e print_error self =
     (if total_files self = 0
      then record_error_and_continue e (Raised ''division by zero'') self
      else
        let self1 = set_progress
              (file_progress (current_conversion_index self) (total_files self) +
               step_progress 60 (total_files self)) self;
            output_path = current_output_path self1
        in case print_error of
             None \<Rightarrow>
               self1\<lparr>printed := printed self1 @ [output_path],
                      scheduled := scheduled self1 @
                        [Timer 10000 (Check_pdf_generation output_path)]\<rparr>
           | Some msg \<Rightarrow>
               caught e Raised
                 (record_error_and_continue e (Pdf_generation_error msg) self1))"

text \<open>
  \<^verbatim>\<open>on_single_conversion_finished\<close>, lines 1211 to 1223. It has no \<^verbatim>\<open>try\<close>: the lookup,
  the division and \<^verbatim>\<open>convert_next_file\<close> raise out of it, to the \<^verbatim>\<open>try\<close> of its caller.
\<close>

definition on_single_conversion_finished ::
  "env \<Rightarrow> bool \<Rightarrow> string \<Rightarrow> converter \<Rightarrow> converter" where
  "on_single_conversion_finished e success output_path self =
     (let i = current_conversion_index self in
      if \<not> success \<and> length (current_files self) \<le> i
      then self\<lparr>raised := Some ''list index out of range''\<rparr>
      else
        let self1 = (if \<not> success
                     then self\<lparr>conversion_errors := conversion_errors self @
                            [(path_stem e (current_files self ! i), Conversion_failed)]\<rparr>
                     else self)
        in if total_files self1 = 0 then self1\<lparr>raised := Some ''division by zero''\<rparr>
           else
             let self2 = set_progress (file_progress (i + 1) (total_files self1)) self1
             in convert_next_file e (self2\<lparr>current_conversion_index := i + 1\<rparr>))"

text \<open>
  What \<^verbatim>\<open>os.path.exists\<close> and \<^verbatim>\<open>os.path.getsize\<close> answer for the output path when a
  check runs: no file, a file of a size in bytes, or an exception with its message.
\<close>

datatype stat = Absent | Size nat | Stat_error string

text \<open>
  \<^verbatim>\<open>check_pdf_generation\<close>, lines 1164 to 1181. The whole body is in the \<^verbatim>\<open>try\<close>, the
  call of \<^verbatim>\<open>on_single_conversion_finished\<close> too.
\<close>

definition check_pdf_generation :: "env \<Rightarrow> string \<Rightarrow> stat \<Rightarrow> converter \<Rightarrow> converter" where
  "check_pdf_generation e output_path found self =
     (case found of
        Stat_error msg \<Rightarrow> record_error_and_continue e (Pdf_check_error msg) self
      | Absent \<Rightarrow>
          self\<lparr>scheduled := scheduled self @
                 [Timer 5000 (Check_pdf_generation_final output_path)]\<rparr>
      | Size file_size \<Rightarrow>
          if 1024 < file_size
          then caught e Pdf_check_error
                 (on_single_conversion_finished e True output_path self)
          else self\<lparr>scheduled := scheduled self @
                      [Timer 5000 (Check_pdf_generation_final output_path)]\<rparr>)"

text \<open>
  \<^verbatim>\<open>check_pdf_generation_final\<close>, lines 1183 to 1209. The whole body is in the \<^verbatim>\<open>try\<close>:
  the two error branches with their calls of \<^verbatim>\<open>convert_next_file\<close>, and the success
  branch, which looks the file name up for its log line (line 1190) before it reports
  success.
\<close>

definition check_pdf_generation_final ::
  "env \<Rightarrow> string \<Rightarrow> stat \<Rightarrow> converter \<Rightarrow> converter" where
  "check_pdf_generation_final e output_path found self =
     (case found of
        Stat_error msg \<Rightarrow> record_error_and_continue e (Pdf_final_check_error msg) self
      | Absent \<Rightarrow>
          caught e Pdf_final_check_error (record_error_and_continue e Pdf_not_generated self)
      | Size file_size \<Rightarrow>
          if 0 < file_size
          then caught e Pdf_final_check_error
                 (if length (current_files self) \<le> current_conversion_index self
                  then self\<lparr>raised := Some ''list index out of range''\<rparr>
                  else on_single_conversion_finished e True output_path self)
          else caught e Pdf_final_check_error (record_error_and_continue e Pdf_empty self))"

section \<open>The event loop\<close>

text \<open>
  The pipeline is a chain of callbacks. An event is one thing the event loop does for it:
  the view emits \<^verbatim>\<open>loadFinished(ok)\<close> for a load that was started, or a single-shot
  timer expires. The events carry what their callback then finds outside the program: the
  result of the load, the exception of the print call, the state of the output file. A
  callback runs to its end before the next event is handled (the event loop that a modal
  dialog runs while it is open is not modelled), and the events may come in any order.
\<close>

datatype event =
    Load_finished bool
  | Generate_pdf_due "string option"
  | Check_due string stat
  | Final_check_due string stat

text \<open>
  Emitting \<^verbatim>\<open>loadFinished\<close> calls the slot once for every connection that existed when
  the signal was emitted and still exists when its turn comes; connections made during
  the emission are not called by it.
\<close>

fun emit_load_finished :: "env \<Rightarrow> bool \<Rightarrow> nat \<Rightarrow> converter \<Rightarrow> converter" where
  "emit_load_finished e ok 0 self = self"
| "emit_load_finished e ok (Suc n) self =
     (if aborted self \<or> load_connections self = 0 then self
      else emit_load_finished e ok n (uncaught (on_html_loaded e ok self)))"

text \<open>One event. \<open>None\<close>: the event cannot happen in this state.\<close>

definition fire :: "env \<Rightarrow> event \<Rightarrow> converter \<Rightarrow> converter option" where
  "fire e ev self =
     (if aborted self then None
      else case ev of
        Load_finished ok \<Rightarrow>
          if Load \<in> set (scheduled self)
          then Some (emit_load_finished e ok (load_connections self)
                       (self\<lparr>scheduled := remove1 Load (scheduled self)\<rparr>))
          else None
      | Generate_pdf_due print_error \<Rightarrow>
          if Timer 3000 Generate_pdf \<in> set (scheduled self)
          then Some (uncaught (generate_pdf e print_error
                       (self\<lparr>scheduled := remove1 (Timer 3000 Generate_pdf) (scheduled self)\<rparr>)))
          else None
      | Check_due output_path found \<Rightarrow>
          if Timer 10000 (Check_pdf_generation output_path) \<in> set (scheduled self)
          then Some (uncaught (check_pdf_generation e output_path found
                       (self\<lparr>scheduled :=
                          remove1 (Timer 10000 (Check_pdf_generation output_path))
                            (scheduled self)\<rparr>)))
          else None
      | Final_check_due output_path found \<Rightarrow>
          if Timer 5000 (Check_pdf_generation_final output_path) \<in> set (scheduled self)
          then Some (uncaught (check_pdf_generation_final e output_path found
                       (self\<lparr>scheduled :=
                          remove1 (Timer 5000 (Check_pdf_generation_final output_path))
                            (scheduled self)\<rparr>)))
          else None)"

text \<open>A run: the events in the order in which they happen.\<close>

fun run :: "env \<Rightarrow> event list \<Rightarrow> converter \<Rightarrow> converter option" where
  "run e [] self = Some self"
| "run e (ev # evs) self =
     (case fire e ev self of None \<Rightarrow> None | Some self' \<Rightarrow> run e evs self')"

section \<open>Notions for the properties of a run\<close>

text \<open>
  The overwrite question is asked for the file at the cursor; the OSError that
  \<^verbatim>\<open>output_path.exists()\<close> raises for it, if it raises one; and the converter after
  \<^verbatim>\<open>convert_next_file\<close> has set the progress for that file (lines 1055 to 1057).
\<close>

definition asked :: "env \<Rightarrow> converter \<Rightarrow> bool" where
  "asked e self =
     (output_exists e (current_conversion_index self) = Inr True \<and> confirm_overwrite self)"

definition exists_error :: "env \<Rightarrow> converter \<Rightarrow> string option" where
  "exists_error e self =
     (case output_exists e (current_conversion_index self) of
        Inl os_error \<Rightarrow> Some os_error
      | Inr found \<Rightarrow> None)"

definition started :: "converter \<Rightarrow> converter" where
  "started self =
     set_progress (file_progress (current_conversion_index self) (total_files self)) self"

text \<open>Two converters agree on what the renderer reads.\<close>

definition same_inputs :: "converter \<Rightarrow> converter \<Rightarrow> bool" where
  "same_inputs s s' =
     (pagebreak_input s' = pagebreak_input s \<and> page_break_marker s' = page_break_marker s
      \<and> include_toc s' = include_toc s)"

section \<open>Sample data\<close>

text \<open>
  Concrete surroundings and document lists at which the theorems below are instantiated:
  a Markdown library that returns its input, file names without directories, every file
  readable; no output file present, or the output of the third file present and Cancel
  the answer, or every output present and the answers No for the first file and Cancel
  after it. In the last of them the second document has a name of 255 bytes, the longest
  that a file system with names of at most 255 bytes takes: the name of its output, one
  byte longer, is too long, and \<^verbatim>\<open>output_path.exists()\<close> raises the OSError for it.
\<close>

definition sample_env :: env where
  "sample_env =
     \<lparr>markdown_convert = (\<lambda>exts text. text),
      path_stem = takeWhile (\<lambda>c. c \<noteq> CHR ''.''),
      path_parent = (\<lambda>p. ''docs''),
      path_join = (\<lambda>d n. d @ ''/'' @ n),
      output_exists = (\<lambda>i. Inr False),
      overwrite_reply = (\<lambda>i. Yes),
      read_file = (\<lambda>i. Inr ''text'')\<rparr>"

definition cancel_env :: env where
  "cancel_env =
     sample_env\<lparr>output_exists := (\<lambda>i. Inr (i = 2)), overwrite_reply := (\<lambda>i. Cancel)\<rparr>"

definition skip_then_cancel_env :: env where
  "skip_then_cancel_env =
     sample_env\<lparr>output_exists := (\<lambda>i. Inr True),
       overwrite_reply := (\<lambda>i. if i = 0 then No else Cancel)\<rparr>"

definition long_name_env :: env where
  "long_name_env =
     sample_env\<lparr>output_exists :=
       (\<lambda>i. if i = 1 then Inl ''[Errno 36] File name too long'' else Inr False)\<rparr>"

definition unreadable_env :: env where
  "unreadable_env =
     long_name_env\<lparr>read_file :=
       (\<lambda>i. if i = 0 then Inl ''[Errno 13] Permission denied'' else Inr ''text'')\<rparr>"

definition three_files :: converter where
  "three_files =
     init_converter\<lparr>current_files := [''a.md'', ''b.md'', ''c.md''], output_folder := ''out''\<rparr>"

definition long_name_files :: converter where
  "long_name_files =
     init_converter\<lparr>current_files := [''a.md'', replicate 252 CHR ''b'' @ ''.md'', ''c.md''],
       output_folder := ''out''\<rparr>"

definition four_files :: converter where
  "four_files =
     init_converter\<lparr>current_files := [''a.md'', ''b.md'', ''c.md'', ''d.md''],
       output_folder := ''out''\<rparr>"

section \<open>Facts about the string functions\<close>

lemma startswith_iff: "startswith p s \<longleftrightarrow> (\<exists>t. s = p @ t)"
  by (induction p s rule: startswith.induct) auto

lemma startswith_drop:
  "startswith (p # ps) (c # cs) \<Longrightarrow> c # cs = (p # ps) @ drop (length ps) cs"
  by (auto simp: startswith_iff)

lemma startswith_trans: "startswith a b \<Longrightarrow> startswith b c \<Longrightarrow> startswith a c"
  by (auto simp: startswith_iff)

lemma startswith_append: "startswith sub a \<Longrightarrow> startswith sub (a @ b)"
  by (induction sub a rule: startswith.induct) auto

lemma py_in_append_left: "py_in sub a \<Longrightarrow> py_in sub (a @ b)"
proof (induction a)
  case Nil
  then show ?case by (cases b) auto
next
  case (Cons c cs)
  then show ?case using startswith_append[of sub "c # cs" b] by auto
qed

lemma py_in_Cons_if:
  "py_in sub (c # cs) = (if startswith sub (c # cs) then True else py_in sub cs)"
  by simp

lemma split_scan_not_Nil: "split_scan sep s \<noteq> []"
  by (induction sep s rule: split_scan.induct) (auto split: list.splits)

lemma py_join_Cons_Cons: "py_join sep ((c # x) # xs) = c # py_join sep (x # xs)"
  by (cases xs) auto

lemma py_join_Nil_Cons: "xs \<noteq> [] \<Longrightarrow> py_join sep ([] # xs) = sep @ py_join sep xs"
  by (cases xs) auto

text \<open>Python's identity \<^verbatim>\<open>s.replace(old, new) == new.join(s.split(old))\<close>.\<close>

lemma replace_scan_join: "replace_scan old new s = py_join new (split_scan old s)"
proof (induction old new s rule: replace_scan.induct)
  case (1 old new)
  then show ?case by simp
next
  case (2 old new c cs)
  show ?case
  proof (cases "startswith old (c # cs)")
    case True
    with 2 show ?thesis by (simp add: py_join_Nil_Cons split_scan_not_Nil)
  next
    case False
    with 2 show ?thesis
      by (cases "split_scan old cs") (simp_all add: split_scan_not_Nil py_join_Cons_Cons)
  qed
qed

lemma join_split_scan: "sep \<noteq> [] \<Longrightarrow> py_join sep (split_scan sep s) = s"
proof (induction sep s rule: split_scan.induct)
  case (1 sep)
  then show ?case by simp
next
  case (2 sep c cs)
  show ?case
  proof (cases "startswith sep (c # cs)")
    case True
    obtain p ps where sep: "sep = p # ps" using 2(3) by (cases sep) auto
    from True 2 sep show ?thesis
      using startswith_drop[of p ps c cs]
      by (simp add: py_join_Nil_Cons split_scan_not_Nil)
  next
    case False
    with 2 show ?thesis
      by (cases "split_scan sep cs") (simp_all add: split_scan_not_Nil py_join_Cons_Cons)
  qed
qed

lemma length_split_scan: "length (split_scan sep s) = Suc (count_scan sep s)"
  by (induction sep s rule: split_scan.induct)
     (auto split: list.splits simp: split_scan_not_Nil)

lemma hd_split_scan_prefix: "startswith (hd (split_scan sep s)) s"
  by (induction sep s rule: split_scan.induct)
     (auto split: list.splits simp: split_scan_not_Nil)

text \<open>No piece between two replaced occurrences contains the separator.\<close>

lemma split_scan_free:
  "sep \<noteq> [] \<Longrightarrow> list_all (\<lambda>seg. \<not> py_in sep seg) (split_scan sep s)"
proof (induction sep s rule: split_scan.induct)
  case (1 sep)
  then show ?case by simp
next
  case (2 sep c cs)
  show ?case
  proof (cases "startswith sep (c # cs)")
    case True
    with 2 show ?thesis by simp
  next
    case False
    obtain seg segs where sp: "split_scan sep cs = seg # segs"
      using split_scan_not_Nil[of sep cs] by (cases "split_scan sep cs") auto
    have pre: "startswith seg cs"
      using hd_split_scan_prefix[of sep cs] sp by simp
    have "\<not> startswith sep (c # seg)"
    proof
      assume "startswith sep (c # seg)"
      moreover have "startswith (c # seg) (c # cs)" using pre by simp
      ultimately have "startswith sep (c # cs)" by (rule startswith_trans)
      with False show False by simp
    qed
    with False 2 sp show ?thesis by simp
  qed
qed

section \<open>The renderer: page breaks\<close>

lemma html_in_head: "py_in ''html'' html_head"
  unfolding html_head_def
  by (simp only: py_in_Cons_if startswith.simps list.inject char.inject simp_thms
        if_True if_False append_Cons append_Nil)

text \<open>
  C1, as stated, fails. With the page-break marker \<open>html\<close> (a non-empty marker) the
  rendered document of the one-letter text \<open>x\<close> contains the raw marker, whatever the
  Markdown library returns: the template around the body contains it.
\<close>

theorem raw_marker_in_html_counterexample:
  "\<forall>e. py_in ''html''
         (markdown_to_html e (init_converter\<lparr>pagebreak_input := ''html''\<rparr>) ''x'')"
  by (simp add: markdown_to_html_def html_template_def py_in_append_left html_in_head)

text \<open>
  C1, amended. For every Markdown text and every non-empty page-break marker, the text that
  the renderer hands to the Markdown conversion is the input with each of the leftmost
  non-overlapping occurrences of the marker (the occurrences that Python's \<^verbatim>\<open>count\<close>
  counts) replaced by one page-break element: it is the pieces of the input between these
  occurrences, joined by the element; joining the same pieces by the marker gives the input
  back; there is one piece more than there are such occurrences; and no piece contains the
  marker. The substitution is applied to the raw Markdown, before the conversion, and the
  document is the fixed template around the converted text.
\<close>

theorem page_break_substitution:
  assumes "pagebreak_input self = marker" and "marker \<noteq> []"
  shows "markdown_to_html e self text =
           html_template
             (markdown_convert e (markdown_extensions (include_toc self))
                (py_join page_break_div (split_scan marker text)))
         \<and> py_join marker (split_scan marker text) = text
         \<and> length (split_scan marker text) = Suc (py_count marker text)
         \<and> list_all (\<lambda>piece. \<not> py_in marker piece) (split_scan marker text)"
proof -
  have "markdown_to_html e self text =
          html_template
            (markdown_convert e (markdown_extensions (include_toc self))
               (replace_scan marker page_break_div text))"
    using assms by (simp add: markdown_to_html_def py_replace_def)
  moreover have "py_count marker text = count_scan marker text"
    using assms by (simp add: py_count_def)
  ultimately show ?thesis
    using assms(2)
    by (simp add: replace_scan_join join_split_scan length_split_scan split_scan_free)
qed

theorem page_break_substitution_witness:
  "markdown_to_html sample_env init_converter ''a<!-- pagebreak -->b<!-- pagebreak -->'' =
     html_template (''a'' @ page_break_div @ ''b'' @ page_break_div)
   \<and> py_join default_marker [''a'', ''b'', []] = ''a<!-- pagebreak -->b<!-- pagebreak -->''
   \<and> py_count default_marker ''a<!-- pagebreak -->b<!-- pagebreak -->'' = 2
   \<and> list_all (\<lambda>piece. \<not> py_in default_marker piece) [''a'', ''b'', []]"
proof -
  have h1: "pagebreak_input init_converter = default_marker"
    by (simp add: init_converter_def)
  have h2: "default_marker \<noteq> []"
    by (simp add: default_marker_def)
  have pieces: "split_scan default_marker ''a<!-- pagebreak -->b<!-- pagebreak -->'' =
                  [''a'', ''b'', []]"
    by (simp add: default_marker_def)
  have joined: "py_join page_break_div [''a'', ''b'', []] =
                  ''a'' @ page_break_div @ ''b'' @ page_break_div"
    by simp
  have lib: "markdown_convert sample_env exts s = s" for exts s
    by (simp add: sample_env_def)
  have "length [''a'', ''b'', []::string] = Suc 2"
    by simp
  then show ?thesis
    using page_break_substitution
            [OF h1 h2, of sample_env "''a<!-- pagebreak -->b<!-- pagebreak -->''"]
    by (simp only: pieces joined lib Suc_inject)
qed

section \<open>The renderer: the built-in marker\<close>

text \<open>
  C10. When the configured marker is empty, the renderer uses the built-in marker
  \<^verbatim>\<open><!-- pagebreak -->\<close> that \<^verbatim>\<open>__init__\<close> stores and nothing overwrites: for every text the
  document is the one rendered with that marker configured, and the text handed to the
  conversion is the input with the occurrences of that marker replaced, not the input with
  the page-break element between all its characters.
\<close>

theorem empty_marker_uses_default:
  assumes "pagebreak_input self = []" and "page_break_marker self = default_marker"
  shows "markdown_to_html e self text =
           markdown_to_html e (self\<lparr>pagebreak_input := default_marker\<rparr>) text
         \<and> markdown_to_html e self text =
           html_template
             (markdown_convert e (markdown_extensions (include_toc self))
                (replace_scan default_marker page_break_div text))"
  using assms by (simp add: markdown_to_html_def py_replace_def default_marker_def)

theorem empty_marker_uses_default_witness:
  "markdown_to_html sample_env (init_converter\<lparr>pagebreak_input := []\<rparr>) ''a<!-- pagebreak -->b'' =
     markdown_to_html sample_env init_converter ''a<!-- pagebreak -->b''
   \<and> markdown_to_html sample_env (init_converter\<lparr>pagebreak_input := []\<rparr>) ''a<!-- pagebreak -->b'' =
     html_template (''a'' @ page_break_div @ ''b'')"
proof -
  have h1: "pagebreak_input (init_converter\<lparr>pagebreak_input := []\<rparr>) = []"
    by simp
  have h2: "page_break_marker (init_converter\<lparr>pagebreak_input := []\<rparr>) = default_marker"
    by (simp add: init_converter_def)
  have restored: "init_converter\<lparr>pagebreak_input := [], pagebreak_input := default_marker\<rparr> = init_converter"
    by (simp add: init_converter_def)
  have scan: "replace_scan default_marker page_break_div ''a<!-- pagebreak -->b'' =
                ''a'' @ page_break_div @ ''b''"
    by (simp add: default_marker_def)
  have lib: "markdown_convert sample_env exts s = s" for exts s
    by (simp add: sample_env_def)
  show ?thesis
    using empty_marker_uses_default
            [OF h1 h2, of sample_env "''a<!-- pagebreak -->b''", unfolded restored scan lib]
    by this
qed

section \<open>The pipeline: case analysis\<close>

text \<open>
  In the names of the lemmas \<open>cnf\<close> stands for \<^verbatim>\<open>convert_next_file\<close>, \<open>rec\<close> for
  \<open>record_error_and_continue\<close>, \<open>osf\<close> for \<^verbatim>\<open>on_single_conversion_finished\<close>, \<open>check\<close>
  and \<open>final\<close> for the two checks and \<open>emit\<close> for \<open>emit_load_finished\<close>. The
  lemmas from \<open>cnf_done\<close> to \<open>cnf_load\<close> are the seven ways through
  \<^verbatim>\<open>convert_next_file\<close>.
\<close>

lemma set_progress_simps [simp]:
  "current_conversion_index (set_progress v s) = current_conversion_index s"
  "total_files (set_progress v s) = total_files s"
  "current_files (set_progress v s) = current_files s"
  "conversion_errors (set_progress v s) = conversion_errors s"
  "scheduled (set_progress v s) = scheduled s"
  "load_connections (set_progress v s) = load_connections s"
  "confirm_overwrite (set_progress v s) = confirm_overwrite s"
  "reports (set_progress v s) = reports s"
  "raised (set_progress v s) = raised s"
  "aborted (set_progress v s) = aborted s"
  "printed (set_progress v s) = printed s"
  "html_loads (set_progress v s) = html_loads s"
  "handler_runs (set_progress v s) = handler_runs s"
  "current_output_path (set_progress v s) = current_output_path s"
  "output_folder (set_progress v s) = output_folder s"
  by (simp_all add: set_progress_def)

lemma started_simps [simp]:
  "current_conversion_index (started s) = current_conversion_index s"
  "total_files (started s) = total_files s"
  "current_files (started s) = current_files s"
  "conversion_errors (started s) = conversion_errors s"
  "scheduled (started s) = scheduled s"
  "load_connections (started s) = load_connections s"
  "confirm_overwrite (started s) = confirm_overwrite s"
  "reports (started s) = reports s"
  "raised (started s) = raised s"
  "aborted (started s) = aborted s"
  "printed (started s) = printed s"
  "html_loads (started s) = html_loads s"
  "handler_runs (started s) = handler_runs s"
  "output_folder (started s) = output_folder s"
  by (simp_all add: started_def)

lemma exists_error_Some:
  "exists_error e s = Some os_error \<longleftrightarrow>
     output_exists e (current_conversion_index s) = Inl os_error"
  by (cases "output_exists e (current_conversion_index s)") (simp_all add: exists_error_def)

lemma exists_error_None:
  "exists_error e s = None \<longleftrightarrow>
     (\<exists>found. output_exists e (current_conversion_index s) = Inr found)"
  by (cases "output_exists e (current_conversion_index s)") (simp_all add: exists_error_def)

lemma cnf_done:
  "total_files s \<le> current_conversion_index s \<Longrightarrow>
   convert_next_file e s = on_all_conversions_finished s"
  by (subst convert_next_file.simps) simp

lemma cnf_past_list:
  "current_conversion_index s < total_files s \<Longrightarrow>
   length (current_files s) \<le> current_conversion_index s \<Longrightarrow>
   convert_next_file e s = s\<lparr>raised := Some ''list index out of range''\<rparr>"
  by (subst convert_next_file.simps) simp

lemma cnf_no_answer:
  "current_conversion_index s < total_files s \<Longrightarrow>
   current_conversion_index s < length (current_files s) \<Longrightarrow>
   exists_error e s = Some os_error \<Longrightarrow>
   convert_next_file e s = (started s)\<lparr>raised := Some os_error\<rparr>"
  unfolding exists_error_Some
  by (subst convert_next_file.simps) (simp add: started_def Let_def)

lemma cnf_cancel:
  "current_conversion_index s < total_files s \<Longrightarrow>
   current_conversion_index s < length (current_files s) \<Longrightarrow>
   asked e s \<Longrightarrow> overwrite_reply e (current_conversion_index s) = Cancel \<Longrightarrow>
   convert_next_file e s = on_all_conversions_finished (started s)"
  by (subst convert_next_file.simps) (simp add: asked_def started_def Let_def)

lemma cnf_skip:
  "current_conversion_index s < total_files s \<Longrightarrow>
   current_conversion_index s < length (current_files s) \<Longrightarrow>
   asked e s \<Longrightarrow> overwrite_reply e (current_conversion_index s) = No \<Longrightarrow>
   convert_next_file e s =
     convert_next_file e
       ((started s)\<lparr>current_conversion_index := current_conversion_index s + 1\<rparr>)"
  by (subst convert_next_file.simps) (simp add: asked_def started_def Let_def)

lemma cnf_read_error:
  assumes "current_conversion_index s < total_files s"
    and "current_conversion_index s < length (current_files s)"
    and "exists_error e s = None"
    and "\<not> asked e s \<or> overwrite_reply e (current_conversion_index s) = Yes"
    and "read_file e (current_conversion_index s) = Inl msg"
  shows "convert_next_file e s =
     convert_next_file e
       ((started s)\<lparr>conversion_errors := conversion_errors s @
            [(path_stem e (current_files s ! current_conversion_index s), Raised msg)],
          current_conversion_index := current_conversion_index s + 1\<rparr>)"
proof -
  from assms(3) obtain found
    where found: "output_exists e (current_conversion_index s) = Inr found"
    unfolding exists_error_None by blast
  with assms(4) have
    "\<not> (found \<and> confirm_overwrite s) \<or> overwrite_reply e (current_conversion_index s) = Yes"
    by (auto simp: asked_def)
  with assms(1,2,5) found show ?thesis
    by (subst convert_next_file.simps) (auto simp add: started_def Let_def)
qed

lemma cnf_load:
  assumes "current_conversion_index s < total_files s"
    and "current_conversion_index s < length (current_files s)"
    and "exists_error e s = None"
    and "\<not> asked e s \<or> overwrite_reply e (current_conversion_index s) = Yes"
    and "read_file e (current_conversion_index s) = Inr content"
  shows "convert_next_file e s =
     (set_progress (file_progress (current_conversion_index s) (total_files s) +
                    step_progress 20 (total_files s)) (started s))
       \<lparr>current_output_path :=
          path_join e (output_folder s)
            (path_stem e (current_files s ! current_conversion_index s) @ ''.pdf''),
        load_connections := load_connections s + 1,
        html_loads := html_loads s @
          [(markdown_to_html e (started s) content,
            path_parent e (current_files s ! current_conversion_index s) @ ''/'')],
        scheduled := scheduled s @ [Load]\<rparr>"
proof -
  from assms(3) obtain found
    where found: "output_exists e (current_conversion_index s) = Inr found"
    unfolding exists_error_None by blast
  with assms(4) have
    "\<not> (found \<and> confirm_overwrite s) \<or> overwrite_reply e (current_conversion_index s) = Yes"
    by (auto simp: asked_def)
  with assms(1,2,5) found show ?thesis
    by (subst convert_next_file.simps) (auto simp add: started_def Let_def)
qed

lemma cnf_cases:
  obtains
    (at_end) "total_files s \<le> current_conversion_index s"
  | (past_list) "current_conversion_index s < total_files s"
      "length (current_files s) \<le> current_conversion_index s"
  | (no_answer) os_error where "current_conversion_index s < total_files s"
      "current_conversion_index s < length (current_files s)"
      "exists_error e s = Some os_error"
  | (cancelled) "current_conversion_index s < total_files s"
      "current_conversion_index s < length (current_files s)"
      "asked e s" "overwrite_reply e (current_conversion_index s) = Cancel"
  | (skipped) "current_conversion_index s < total_files s"
      "current_conversion_index s < length (current_files s)"
      "asked e s" "overwrite_reply e (current_conversion_index s) = No"
  | (unreadable) msg where "current_conversion_index s < total_files s"
      "current_conversion_index s < length (current_files s)"
      "exists_error e s = None"
      "\<not> asked e s \<or> overwrite_reply e (current_conversion_index s) = Yes"
      "read_file e (current_conversion_index s) = Inl msg"
  | (loading) content where "current_conversion_index s < total_files s"
      "current_conversion_index s < length (current_files s)"
      "exists_error e s = None"
      "\<not> asked e s \<or> overwrite_reply e (current_conversion_index s) = Yes"
      "read_file e (current_conversion_index s) = Inr content"
proof (cases "total_files s \<le> current_conversion_index s")
  case True
  then show ?thesis by (rule at_end)
next
  case False
  then have in_job: "current_conversion_index s < total_files s" by simp
  show ?thesis
  proof (cases "length (current_files s) \<le> current_conversion_index s")
    case True
    with in_job show ?thesis by (rule past_list)
  next
    case False
    then have in_list: "current_conversion_index s < length (current_files s)" by simp
    show ?thesis
    proof (cases "exists_error e s")
      case (Some os_error)
      with in_job in_list show ?thesis by (rule no_answer)
    next
      case None
      have reply: "(asked e s \<and> overwrite_reply e (current_conversion_index s) = Cancel)
          \<or> (asked e s \<and> overwrite_reply e (current_conversion_index s) = No)
          \<or> (\<not> asked e s \<or> overwrite_reply e (current_conversion_index s) = Yes)"
        by (cases "overwrite_reply e (current_conversion_index s)") auto
      have content: "(\<exists>msg. read_file e (current_conversion_index s) = Inl msg)
          \<or> (\<exists>content. read_file e (current_conversion_index s) = Inr content)"
        by (cases "read_file e (current_conversion_index s)") auto
      from reply content in_job in_list None cancelled skipped unreadable loading
      show ?thesis by metis
    qed
  qed
qed

lemma cnf_induct
  [case_names at_end past_list no_answer cancelled skipped unreadable loading]:
  assumes "\<And>s. total_files s \<le> current_conversion_index s \<Longrightarrow> P s"
    and "\<And>s. current_conversion_index s < total_files s \<Longrightarrow>
           length (current_files s) \<le> current_conversion_index s \<Longrightarrow> P s"
    and "\<And>s os_error. current_conversion_index s < total_files s \<Longrightarrow>
           current_conversion_index s < length (current_files s) \<Longrightarrow>
           exists_error e s = Some os_error \<Longrightarrow> P s"
    and "\<And>s. current_conversion_index s < total_files s \<Longrightarrow>
           current_conversion_index s < length (current_files s) \<Longrightarrow>
           asked e s \<Longrightarrow> overwrite_reply e (current_conversion_index s) = Cancel \<Longrightarrow> P s"
    and "\<And>s. current_conversion_index s < total_files s \<Longrightarrow>
           current_conversion_index s < length (current_files s) \<Longrightarrow>
           asked e s \<Longrightarrow> overwrite_reply e (current_conversion_index s) = No \<Longrightarrow>
           P ((started s)\<lparr>current_conversion_index := current_conversion_index s + 1\<rparr>) \<Longrightarrow>
           P s"
    and "\<And>s msg. current_conversion_index s < total_files s \<Longrightarrow>
           current_conversion_index s < length (current_files s) \<Longrightarrow>
           exists_error e s = None \<Longrightarrow>
           \<not> asked e s \<or> overwrite_reply e (current_conversion_index s) = Yes \<Longrightarrow>
           read_file e (current_conversion_index s) = Inl msg \<Longrightarrow>
           P ((started s)\<lparr>conversion_errors := conversion_errors s @
                  [(path_stem e (current_files s ! current_conversion_index s), Raised msg)],
                current_conversion_index := current_conversion_index s + 1\<rparr>) \<Longrightarrow>
           P s"
    and "\<And>s content. current_conversion_index s < total_files s \<Longrightarrow>
           current_conversion_index s < length (current_files s) \<Longrightarrow>
           exists_error e s = None \<Longrightarrow>
           \<not> asked e s \<or> overwrite_reply e (current_conversion_index s) = Yes \<Longrightarrow>
           read_file e (current_conversion_index s) = Inr content \<Longrightarrow> P s"
  shows "P s"
proof (induction "total_files s - current_conversion_index s" arbitrary: s rule: less_induct)
  case less
  show ?case
  proof (cases rule: cnf_cases[where s=s and e=e])
    case at_end
    then show ?thesis by (rule assms(1))
  next
    case past_list
    then show ?thesis by (rule assms(2))
  next
    case (no_answer os_error)
    then show ?thesis by (rule assms(3))
  next
    case cancelled
    then show ?thesis by (rule assms(4))
  next
    case skipped
    have "P ((started s)\<lparr>current_conversion_index := current_conversion_index s + 1\<rparr>)"
      using skipped(1) by (intro less) simp
    then show ?thesis by (rule assms(5)[OF skipped])
  next
    case (unreadable msg)
    have "P ((started s)\<lparr>conversion_errors := conversion_errors s @
                  [(path_stem e (current_files s ! current_conversion_index s), Raised msg)],
                current_conversion_index := current_conversion_index s + 1\<rparr>)"
      using unreadable(1) by (intro less) simp
    then show ?thesis by (rule assms(6)[OF unreadable])
  next
    case (loading content)
    then show ?thesis by (rule assms(7))
  qed
qed

lemma finished_simps [simp]:
  "current_conversion_index (on_all_conversions_finished s) = current_conversion_index s"
  "total_files (on_all_conversions_finished s) = total_files s"
  "current_files (on_all_conversions_finished s) = current_files s"
  "conversion_errors (on_all_conversions_finished s) = conversion_errors s"
  "scheduled (on_all_conversions_finished s) = scheduled s"
  "load_connections (on_all_conversions_finished s) = load_connections s"
  "confirm_overwrite (on_all_conversions_finished s) = confirm_overwrite s"
  "raised (on_all_conversions_finished s) = raised s"
  "aborted (on_all_conversions_finished s) = aborted s"
  "printed (on_all_conversions_finished s) = printed s"
  "html_loads (on_all_conversions_finished s) = html_loads s"
  "handler_runs (on_all_conversions_finished s) = handler_runs s"
  "progress_bar (on_all_conversions_finished s) = 100"
  "reports (on_all_conversions_finished s) \<noteq> []"
  by (simp_all add: on_all_conversions_finished_def set_progress_def Let_def)





lemma uncaught_nothing: "raised s = None \<Longrightarrow> uncaught s = s"
  by (simp add: uncaught_def)

section \<open>Evaluating concrete runs\<close>

lemma sample_env_simps:
  "markdown_convert sample_env = (\<lambda>exts text. text)"
  "path_stem sample_env = takeWhile (\<lambda>c. c \<noteq> CHR ''.'')"
  "path_parent sample_env = (\<lambda>p. ''docs'')"
  "path_join sample_env = (\<lambda>d n. d @ ''/'' @ n)"
  "output_exists sample_env = (\<lambda>i. Inr False)"
  "overwrite_reply sample_env = (\<lambda>i. Yes)"
  "read_file sample_env = (\<lambda>i. Inr ''text'')"
  by (simp_all add: sample_env_def)

lemma cancel_env_simps:
  "path_stem cancel_env = takeWhile (\<lambda>c. c \<noteq> CHR ''.'')"
  "path_parent cancel_env = (\<lambda>p. ''docs'')"
  "path_join cancel_env = (\<lambda>d n. d @ ''/'' @ n)"
  "output_exists cancel_env = (\<lambda>i. Inr (i = 2))"
  "overwrite_reply cancel_env = (\<lambda>i. Cancel)"
  "read_file cancel_env = (\<lambda>i. Inr ''text'')"
  by (simp_all add: cancel_env_def sample_env_def)

lemma skip_then_cancel_env_simps:
  "path_stem skip_then_cancel_env = takeWhile (\<lambda>c. c \<noteq> CHR ''.'')"
  "path_parent skip_then_cancel_env = (\<lambda>p. ''docs'')"
  "path_join skip_then_cancel_env = (\<lambda>d n. d @ ''/'' @ n)"
  "output_exists skip_then_cancel_env = (\<lambda>i. Inr True)"
  "overwrite_reply skip_then_cancel_env = (\<lambda>i. if i = 0 then No else Cancel)"
  "read_file skip_then_cancel_env = (\<lambda>i. Inr ''text'')"
  by (simp_all add: skip_then_cancel_env_def sample_env_def)

lemma long_name_env_simps:
  "path_stem long_name_env = takeWhile (\<lambda>c. c \<noteq> CHR ''.'')"
  "path_parent long_name_env = (\<lambda>p. ''docs'')"
  "path_join long_name_env = (\<lambda>d n. d @ ''/'' @ n)"
  "output_exists long_name_env =
     (\<lambda>i. if i = 1 then Inl ''[Errno 36] File name too long'' else Inr False)"
  "overwrite_reply long_name_env = (\<lambda>i. Yes)"
  "read_file long_name_env = (\<lambda>i. Inr ''text'')"
  by (simp_all add: long_name_env_def sample_env_def)

lemma unreadable_env_simps:
  "path_stem unreadable_env = takeWhile (\<lambda>c. c \<noteq> CHR ''.'')"
  "path_parent unreadable_env = (\<lambda>p. ''docs'')"
  "path_join unreadable_env = (\<lambda>d n. d @ ''/'' @ n)"
  "output_exists unreadable_env =
     (\<lambda>i. if i = 1 then Inl ''[Errno 36] File name too long'' else Inr False)"
  "overwrite_reply unreadable_env = (\<lambda>i. Yes)"
  "read_file unreadable_env =
     (\<lambda>i. if i = 0 then Inl ''[Errno 13] Permission denied'' else Inr ''text'')"
  by (simp_all add: unreadable_env_def long_name_env_def sample_env_def)

lemma long_name_stem:
  "takeWhile (\<lambda>c. c \<noteq> CHR ''.'') (replicate n CHR ''b'' @ ''.md'') = replicate n CHR ''b''"
  by (induction n) simp_all

lemmas pipeline_eval =
  convert_to_pdf_def convert_next_file.simps three_files_def four_files_def init_converter_def
  set_progress_def file_progress_def step_progress_def on_all_conversions_finished_def
  record_error_and_continue_def caught_def uncaught_def on_html_loaded_def generate_pdf_def
  on_single_conversion_finished_def check_pdf_generation_def check_pdf_generation_final_def
  fire_def Let_def sample_env_simps cancel_env_simps skip_then_cancel_env_simps
  long_name_env_simps unreadable_env_simps long_name_files_def long_name_stem

section \<open>The renderer: its inputs\<close>

lemma same_inputs_refl: "same_inputs s s"
  by (simp add: same_inputs_def)

lemma same_inputs_trans: "same_inputs s s' \<Longrightarrow> same_inputs s' s'' \<Longrightarrow> same_inputs s s''"
  by (simp add: same_inputs_def)

lemma same_inputs_fields:
  "pagebreak_input s' = pagebreak_input s \<Longrightarrow> page_break_marker s' = page_break_marker s \<Longrightarrow>
   include_toc s' = include_toc s \<Longrightarrow> same_inputs s s'"
  by (simp add: same_inputs_def)

lemma set_progress_inputs [simp]:
  "pagebreak_input (set_progress v s) = pagebreak_input s"
  "page_break_marker (set_progress v s) = page_break_marker s"
  "include_toc (set_progress v s) = include_toc s"
  by (simp_all add: set_progress_def)

lemma finished_inputs: "same_inputs s (on_all_conversions_finished s)"
  by (simp add: same_inputs_def on_all_conversions_finished_def Let_def)

lemma cnf_inputs: "same_inputs s (convert_next_file e s)"
proof (induction s rule: cnf_induct[where e=e])
  case (at_end s)
  show ?case unfolding cnf_done[OF at_end(1)] by (rule finished_inputs)
next
  case (past_list s)
  then show ?case unfolding cnf_past_list[OF past_list(1,2)] by (simp add: same_inputs_def)
next
  case (no_answer s os_error)
  then show ?case unfolding cnf_no_answer[OF no_answer(1-3)]
    by (simp add: same_inputs_def started_def)
next
  case (cancelled s)
  have "same_inputs s (started s)" by (simp add: same_inputs_def started_def)
  from this finished_inputs show ?case unfolding cnf_cancel[OF cancelled(1-4)]
    by (rule same_inputs_trans)
next
  case (skipped s)
  then show ?case unfolding cnf_skip[OF skipped(1-4)]
    by (simp add: same_inputs_def started_def)
next
  case (unreadable s msg)
  then show ?case unfolding cnf_read_error[OF unreadable(1-5)]
    by (simp add: same_inputs_def started_def)
next
  case (loading s content)
  then show ?case unfolding cnf_load[OF loading(1-5)]
    by (simp add: same_inputs_def started_def)
qed

lemma cnf_inputs':
  "pagebreak_input s1 = pagebreak_input s \<Longrightarrow> page_break_marker s1 = page_break_marker s \<Longrightarrow>
   include_toc s1 = include_toc s \<Longrightarrow> same_inputs s (convert_next_file e s1)"
  using same_inputs_trans[OF same_inputs_fields cnf_inputs] by blast

lemma rec_inputs':
  "pagebreak_input s1 = pagebreak_input s \<Longrightarrow> page_break_marker s1 = page_break_marker s \<Longrightarrow>
   include_toc s1 = include_toc s \<Longrightarrow> same_inputs s (record_error_and_continue e err s1)"
  by (auto simp: record_error_and_continue_def Let_def cnf_inputs' intro: same_inputs_fields)

lemma rec_inputs: "same_inputs s (record_error_and_continue e err s)"
  by (rule rec_inputs') simp_all

lemma caught_inputs: "same_inputs s s1 \<Longrightarrow> same_inputs s (caught e handler s1)"
proof (cases "raised s1")
  case None
  assume "same_inputs s s1"
  with None show ?thesis by (simp add: caught_def)
next
  case (Some msg)
  assume "same_inputs s s1"
  then have "same_inputs s (record_error_and_continue e (handler msg) (s1\<lparr>raised := None\<rparr>))"
    by (intro rec_inputs') (simp_all add: same_inputs_def)
  with Some show ?thesis by (simp add: caught_def)
qed

lemma uncaught_inputs: "same_inputs s s1 \<Longrightarrow> same_inputs s (uncaught s1)"
  by (simp add: uncaught_def same_inputs_def)

lemma osf_inputs: "same_inputs s (on_single_conversion_finished e success p s)"
  by (auto simp: on_single_conversion_finished_def Let_def cnf_inputs'
      intro: same_inputs_fields)

lemma on_html_loaded_inputs: "same_inputs s (on_html_loaded e ok s)"
  by (auto simp: on_html_loaded_def Let_def rec_inputs' intro: same_inputs_fields)

lemma generate_pdf_inputs: "same_inputs s (generate_pdf e print_error s)"
proof (cases print_error)
  case None
  then show ?thesis
    by (auto simp: generate_pdf_def Let_def rec_inputs' intro: same_inputs_fields)
next
  case (Some msg)
  have "same_inputs s (caught e Raised (record_error_and_continue e (Pdf_generation_error msg)
          (set_progress v s)))" for v
    by (intro caught_inputs rec_inputs') simp_all
  with Some show ?thesis
    by (auto simp: generate_pdf_def Let_def rec_inputs')
qed

lemma check_inputs: "same_inputs s (check_pdf_generation e p found s)"
proof (cases found)
  case Absent
  then show ?thesis by (simp add: check_pdf_generation_def same_inputs_def)
next
  case (Size n)
  have "same_inputs s (caught e Pdf_check_error (on_single_conversion_finished e True p s))"
    by (intro caught_inputs osf_inputs)
  with Size show ?thesis by (simp add: check_pdf_generation_def same_inputs_def)
next
  case (Stat_error msg)
  then show ?thesis by (simp add: check_pdf_generation_def rec_inputs)
qed

lemma final_inputs: "same_inputs s (check_pdf_generation_final e p found s)"
proof (cases found)
  case Absent
  have "same_inputs s
          (caught e Pdf_final_check_error (record_error_and_continue e Pdf_not_generated s))"
    by (intro caught_inputs rec_inputs)
  with Absent show ?thesis by (simp add: check_pdf_generation_final_def)
next
  case (Size n)
  have "same_inputs s
          (caught e Pdf_final_check_error (record_error_and_continue e Pdf_empty s))"
    by (intro caught_inputs rec_inputs)
  moreover have "same_inputs s
          (caught e Pdf_final_check_error (on_single_conversion_finished e True p s))"
    by (intro caught_inputs osf_inputs)
  moreover have "same_inputs s
          (caught e Pdf_final_check_error (s\<lparr>raised := Some ''list index out of range''\<rparr>))"
    by (intro caught_inputs) (simp add: same_inputs_def)
  ultimately show ?thesis using Size by (simp add: check_pdf_generation_final_def)
next
  case (Stat_error msg)
  then show ?thesis by (simp add: check_pdf_generation_final_def rec_inputs)
qed

lemma emit_inputs: "same_inputs s (emit_load_finished e ok n s)"
proof (induction n arbitrary: s)
  case 0
  then show ?case by (simp add: same_inputs_refl)
next
  case (Suc n)
  have "same_inputs s (uncaught (on_html_loaded e ok s))"
    by (intro uncaught_inputs on_html_loaded_inputs)
  from same_inputs_trans[OF this Suc.IH] show ?case
    by (simp add: same_inputs_refl)
qed

lemma fire_inputs: "fire e ev s = Some s' \<Longrightarrow> same_inputs s s'"
proof -
  assume a: "fire e ev s = Some s'"
  have sch: "same_inputs s (s\<lparr>scheduled := xs\<rparr>)" for xs
    by (simp add: same_inputs_def)
  show ?thesis
  proof (cases ev)
    case (Load_finished ok)
    with a show ?thesis
      using same_inputs_trans[OF sch emit_inputs]
      by (auto simp: fire_def split: if_splits)
  next
    case (Generate_pdf_due print_error)
    with a show ?thesis
      using uncaught_inputs[OF same_inputs_trans[OF sch generate_pdf_inputs]]
      by (auto simp: fire_def split: if_splits)
  next
    case (Check_due p found)
    with a show ?thesis
      using uncaught_inputs[OF same_inputs_trans[OF sch check_inputs]]
      by (auto simp: fire_def split: if_splits)
  next
    case (Final_check_due p found)
    with a show ?thesis
      using uncaught_inputs[OF same_inputs_trans[OF sch final_inputs]]
      by (auto simp: fire_def split: if_splits)
  qed
qed

lemma run_inputs: "run e evs s = Some s' \<Longrightarrow> same_inputs s s'"
proof (induction evs arbitrary: s)
  case Nil
  then show ?case by (simp add: same_inputs_refl)
next
  case (Cons ev evs)
  then obtain s1 where f: "fire e ev s = Some s1" and r: "run e evs s1 = Some s'"
    by (auto split: option.splits)
  from fire_inputs[OF f] Cons.IH[OF r] show ?case by (rule same_inputs_trans)
qed

lemma start_inputs: "same_inputs s (convert_to_pdf e s)"
proof (cases "current_files s = [] \<or> output_folder s = []")
  case True
  then show ?thesis by (auto simp: convert_to_pdf_def same_inputs_refl)
next
  case False
  have "same_inputs s (uncaught (convert_next_file e
          (set_progress 0 (s\<lparr>current_conversion_index := 0,
             total_files := length (current_files s), conversion_errors := []\<rparr>))))"
    by (intro uncaught_inputs cnf_inputs') simp_all
  with False show ?thesis by (simp add: convert_to_pdf_def)
qed

text \<open>
  C5. The rendered document is a function of the Markdown text, the page-break marker (the
  configured text and the built-in marker behind it) and the table-of-contents option: two
  converters that agree on these render every text to the same document, whatever else
  differs between them (document list, cursor, error list, progress, pending work). The
  renderer returns the document only and writes no field of the converter, and the
  Markdown library is called on an instance of its own for every call; so nothing that
  happens in between changes a rendering: after any run of the batch pipeline, which
  renders every file it loads, every text is rendered to the document it was rendered to
  before the run.
\<close>

theorem renderer_inputs:
  "(pagebreak_input s1 = pagebreak_input s2 \<and> page_break_marker s1 = page_break_marker s2
      \<and> include_toc s1 = include_toc s2
    \<longrightarrow> markdown_to_html e s1 text = markdown_to_html e s2 text)
   \<and> (run e' evs (convert_to_pdf e' s) = Some s'
    \<longrightarrow> markdown_to_html e s' text = markdown_to_html e s text)"
proof -
  have "markdown_to_html e s' text = markdown_to_html e s text"
    if "run e' evs (convert_to_pdf e' s) = Some s'"
    using same_inputs_trans[OF start_inputs run_inputs[OF that]]
    by (simp add: same_inputs_def markdown_to_html_def)
  then show ?thesis by (simp add: markdown_to_html_def)
qed

theorem renderer_inputs_witness:
  "markdown_to_html sample_env init_converter ''# title'' =
     markdown_to_html sample_env
       (init_converter\<lparr>current_files := [''a.md''], current_conversion_index := 1,
          conversion_errors := [(''a'', Html_load_failed)], progress_bar := 100\<rparr>) ''# title''
   \<and> (\<exists>s'. run sample_env [Load_finished True, Generate_pdf_due None]
               (convert_to_pdf sample_env three_files) = Some s'
          \<and> length (html_loads s') = 1 \<and> printed s' = [''out/a.pdf'']
          \<and> markdown_to_html sample_env s' ''# title'' =
              markdown_to_html sample_env three_files ''# title'')"
proof -
  let ?s2 = "init_converter\<lparr>current_files := [''a.md''], current_conversion_index := 1,
          conversion_errors := [(''a'', Html_load_failed)], progress_bar := 100\<rparr>"
  let ?r = "run sample_env [Load_finished True, Generate_pdf_due None]
              (convert_to_pdf sample_env three_files)"
  have v: "map_option (\<lambda>s. (length (html_loads s), printed s)) ?r = Some (1, [''out/a.pdf''])"
    by (simp add: pipeline_eval)
  then obtain s' where s': "?r = Some s'"
    by (cases ?r) auto
  have agree: "pagebreak_input init_converter = pagebreak_input ?s2
      \<and> page_break_marker init_converter = page_break_marker ?s2
      \<and> include_toc init_converter = include_toc ?s2"
    by simp
  note th = renderer_inputs[of init_converter ?s2 sample_env "''# title''" sample_env
      "[Load_finished True, Generate_pdf_due None]" three_files s']
  from th agree have a: "markdown_to_html sample_env init_converter ''# title'' =
     markdown_to_html sample_env ?s2 ''# title''"
    by blast
  from th s' have b: "markdown_to_html sample_env s' ''# title'' =
              markdown_to_html sample_env three_files ''# title''"
    by blast
  from v s' have "length (html_loads s') = 1" "printed s' = [''out/a.pdf'']"
    by auto
  with a b s' show ?thesis by blast
qed

section \<open>Checking the output\<close>




section \<open>The summary of a job\<close>

text \<open>
  C9. Whenever \<^verbatim>\<open>convert_next_file\<close> finishes the job, because the cursor is at the end of
  the list or because the user answers Cancel to the overwrite question, the progress is
  100 and the dialog reports as converted the number of files less the number of recorded
  errors: with no error recorded it reports all files as converted, also those that were
  skipped or never reached.
\<close>

theorem finalization_summary:
  assumes "total_files self \<le> current_conversion_index self
           \<or> (current_conversion_index self < length (current_files self)
               \<and> output_exists e (current_conversion_index self) = Inr True
               \<and> confirm_overwrite self
               \<and> overwrite_reply e (current_conversion_index self) = Cancel)"
  shows "progress_bar (convert_next_file e self) = 100
         \<and> reports (convert_next_file e self) =
             reports self @
             [if conversion_errors self = [] then All_converted (int (total_files self))
              else With_errors
                     (int (total_files self) - int (length (conversion_errors self)))
                     (length (conversion_errors self)) (take 5 (conversion_errors self))
                     (length (conversion_errors self) - 5)]"
proof (cases "total_files self \<le> current_conversion_index self")
  case True
  then show ?thesis
    unfolding cnf_done[OF True]
    by (simp add: on_all_conversions_finished_def set_progress_def Let_def)
next
  case False
  with assms have "asked e self" "overwrite_reply e (current_conversion_index self) = Cancel"
    "current_conversion_index self < length (current_files self)"
    "current_conversion_index self < total_files self"
    by (auto simp: asked_def)
  then show ?thesis
    unfolding cnf_cancel[OF \<open>current_conversion_index self < total_files self\<close>
        \<open>current_conversion_index self < length (current_files self)\<close>
        \<open>asked e self\<close> \<open>overwrite_reply e (current_conversion_index self) = Cancel\<close>]
    by (simp add: on_all_conversions_finished_def set_progress_def Let_def started_def)
qed

theorem finalization_summary_witness:
  "reports (convert_to_pdf skip_then_cancel_env three_files) = [All_converted 3]
   \<and> progress_bar (convert_to_pdf skip_then_cancel_env three_files) = 100
   \<and> html_loads (convert_to_pdf skip_then_cancel_env three_files) = []
   \<and> current_conversion_index (convert_to_pdf skip_then_cancel_env three_files) = 1"
proof -
  let ?s1 = "three_files\<lparr>total_files := length (current_files three_files),
               current_conversion_index := 1\<rparr>"
  have quiet: "raised (convert_next_file skip_then_cancel_env ?s1) = None"
    by (simp add: pipeline_eval)
  have skip: "convert_next_file skip_then_cancel_env
                (set_progress 0
                   (three_files\<lparr>current_conversion_index := 0,
                      total_files := length (current_files three_files),
                      conversion_errors := []\<rparr>)) =
              convert_next_file skip_then_cancel_env ?s1"
    by (subst convert_next_file.simps)
       (simp add: three_files_def init_converter_def set_progress_def file_progress_def
          skip_then_cancel_env_simps)
  have step: "convert_to_pdf skip_then_cancel_env three_files =
                convert_next_file skip_then_cancel_env ?s1"
    unfolding convert_to_pdf_def skip uncaught_nothing[OF quiet]
    by (simp add: three_files_def init_converter_def)
  have h: "total_files ?s1 \<le> current_conversion_index ?s1
           \<or> (current_conversion_index ?s1 < length (current_files ?s1)
               \<and> output_exists skip_then_cancel_env (current_conversion_index ?s1) = Inr True
               \<and> confirm_overwrite ?s1
               \<and> overwrite_reply skip_then_cancel_env (current_conversion_index ?s1) = Cancel)"
    by (simp add: three_files_def init_converter_def skip_then_cancel_env_simps)
  have rest: "html_loads (convert_to_pdf skip_then_cancel_env three_files) = []
     \<and> current_conversion_index (convert_to_pdf skip_then_cancel_env three_files) = 1"
    by (simp add: pipeline_eval)
  show ?thesis
    using finalization_summary[OF h] rest unfolding step
    by (simp add: three_files_def init_converter_def)
qed

section \<open>Runs in which two loads in a row fail\<close>

text \<open>
  The branch of \<^verbatim>\<open>on_html_loaded\<close> for a failed load does not disconnect the slot, and
  \<^verbatim>\<open>convert_next_file\<close> connects it again for the next file. After one failed load two
  connections exist, and the next \<^verbatim>\<open>loadFinished\<close> calls the slot twice. When that load
  fails too, the second call finds the cursor already on the file after it.
\<close>

text \<open>
  C4 says that the load-finished handler runs exactly once for every HTML load that is
  emitted, on the success and on the failure branch. In the run below, three documents and
  the loads of the first two failing, two loads have finished and the handler has run three
  times: the third document is recorded as failed to load while its load is still in
  flight.
\<close>

theorem load_handler_runs_twice:
  "map_option
     (\<lambda>s. (length (html_loads s), handler_runs s, conversion_errors s, scheduled s))
     (run sample_env [Load_finished False, Load_finished False]
        (convert_to_pdf sample_env three_files))
   = Some (3, 3,
       [(''a'', Html_load_failed), (''b'', Html_load_failed), (''c'', Html_load_failed)],
       [Load])"
  by (simp add: pipeline_eval)

text \<open>
  C6 says that the cursor stays between 0 and the number of files and that nothing runs
  for a file once it has reached that number. In the run below the job finishes with the
  cursor at 3 of 3 while the load of the third document is in flight; when that load
  succeeds, the document is printed and checked, the cursor moves to 4, and the job
  finishes a second time.
\<close>

theorem cursor_passes_total:
  "map_option
     (\<lambda>s. (current_conversion_index s, total_files s, length (reports s), printed s))
     (run sample_env
        [Load_finished False, Load_finished False, Load_finished True,
         Generate_pdf_due None, Check_due ''out/c.pdf'' (Size 2048)]
        (convert_to_pdf sample_env three_files))
   = Some (4, 3, 2, [''out/c.pdf''])"
  by (simp add: pipeline_eval)

text \<open>
  C7 says that no transition lowers the progress value. In the run below, four documents
  with the loads of the first two failing, the output of the third present and Cancel the
  answer: two connections exist when the second load fails; the first call of the handler
  asks for the third document, is answered Cancel and finishes the job with the progress
  at 100; the second call goes on with the fourth document and sets the progress to 80.
\<close>

theorem progress_drops_after_cancel:
  "map_option
     (\<lambda>s. let h1 = on_html_loaded cancel_env False
                      (s\<lparr>scheduled := remove1 Load (scheduled s)\<rparr>);
               h2 = on_html_loaded cancel_env False h1
           in (load_connections s, progress_bar h1, length (reports h1), progress_bar h2,
               fire cancel_env (Load_finished False) s = Some h2))
     (run cancel_env [Load_finished False] (convert_to_pdf cancel_env four_files))
   = Some (2, 100, 1, 80, True)"
  by (simp add: pipeline_eval)

text \<open>
  C3 says that Cancel at the overwrite question for a file ends the job: no later file is
  converted and no error is recorded for the cancelled file or those after it. In the run
  of C7 continued, Cancel is answered for the third document; the second call of the
  handler then records a load error for that document, for which no load was emitted, and
  the fourth document is loaded and printed.
\<close>

theorem cancel_does_not_end_the_job:
  "map_option
     (\<lambda>s. (current_conversion_index s, conversion_errors s, length (html_loads s),
           printed s, length (reports s)))
     (run cancel_env
        [Load_finished False, Load_finished False, Load_finished True,
         Generate_pdf_due None, Check_due ''out/d.pdf'' (Size 2048)]
        (convert_to_pdf cancel_env four_files))
   = Some (4,
       [(''a'', Html_load_failed), (''b'', Html_load_failed), (''c'', Html_load_failed)],
       3, [''out/d.pdf''], 2)"
  by (simp add: pipeline_eval)

section \<open>An exception on the way to the next file\<close>

text \<open>
  Every error branch ends in a call of \<^verbatim>\<open>convert_next_file\<close> for the next file, and
  \<^verbatim>\<open>convert_next_file\<close> asks \<^verbatim>\<open>output_path.exists()\<close> outside its \<^verbatim>\<open>try\<close>. The OSError
  that the question raises is caught where the call stands in the \<^verbatim>\<open>try\<close> of a check;
  it is caught by nobody where the call stands in an \<^verbatim>\<open>except\<close> clause, in the branch for
  a failed load or in \<^verbatim>\<open>convert_to_pdf\<close>.
\<close>

text \<open>
  C8 says that recording a per-file error is always followed by continuing with the next
  file, so that every sequence of per-file failures ends in the finished job, and that only
  the user's Cancel ends the job before the cursor is at the end of the list. In the two
  runs below there are three documents, no output file exists and nobody is asked
  anything; the name of the output of the second document is too long. In the first run
  the load of the first document fails, in the second run the first document cannot be
  read. The error is recorded and the cursor advances to the second document; the call of
  \<^verbatim>\<open>convert_next_file\<close> for it raises the OSError, which leaves the slot: the process
  ends with the cursor at 1 of 3, no report of the finished job, nothing pending and the
  third document never started.
\<close>

theorem error_ends_the_job:
  "map_option
     (\<lambda>s. (aborted s, current_conversion_index s, total_files s, conversion_errors s,
           length (reports s), length (html_loads s), scheduled s))
     (run long_name_env [Load_finished False] (convert_to_pdf long_name_env long_name_files))
   = Some (True, 1, 3, [(''a'', Html_load_failed)], 0, 1, [])
   \<and> (let s = convert_to_pdf unreadable_env long_name_files
      in (aborted s, current_conversion_index s, total_files s, conversion_errors s,
          length (reports s), length (html_loads s), scheduled s))
     = (True, 1, 3, [(''a'', Raised ''[Errno 13] Permission denied'')], 0, 0, [])"
  by (simp add: pipeline_eval)

text \<open>
  The same OSError after a success: the first document is converted, and the first check
  of its output calls \<^verbatim>\<open>convert_next_file\<close> inside its \<^verbatim>\<open>try\<close>. The \<^verbatim>\<open>except\<close> clause
  of the check records the error for the second document, and the third document is
  loaded.
\<close>

lemma os_error_after_success_is_recorded:
  "map_option
     (\<lambda>s. (aborted s, current_conversion_index s, conversion_errors s,
           length (html_loads s), scheduled s))
     (run long_name_env
        [Load_finished True, Generate_pdf_due None, Check_due ''out/a.pdf'' (Size 2048)]
        (convert_to_pdf long_name_env long_name_files))
   = Some (False, 2,
       [(replicate 252 CHR ''b'', Pdf_check_error ''[Errno 36] File name too long'')],
       2, [Load])"
  by (simp add: pipeline_eval)

text \<open>
  A third failed load in the run of C4: the handler starts with the cursor at 3 of 3,
  after the job has been reported finished, and the lookup of the current file raises the
  IndexError, which leaves the slot.
\<close>

lemma third_failed_load_ends_the_process:
  "map_option
     (\<lambda>s. (aborted s, raised s, current_conversion_index s, length (reports s)))
     (run sample_env [Load_finished False, Load_finished False, Load_finished False]
        (convert_to_pdf sample_env three_files))
   = Some (True, Some ''list index out of range'', 3, 1)"
  by (simp add: pipeline_eval)

end
